theory Spec2Isabelle
  imports Complex_Main
begin

section \<open>Python strings\<close>

text \<open>
  A Python \<^verbatim>\<open>str\<close> is a sequence of Unicode code points. A code point is a natural
  number here, so that whitespace beyond ASCII and Latin-1 is covered; \<open>py\<close> turns an
  ASCII literal of the source into such a sequence.
\<close>

type_synonym codepoint = nat
type_synonym str = "codepoint list"

definition py :: "string \<Rightarrow> str" where
  "py s = map of_char s"

definition newline :: codepoint where "newline = 10"
definition dquote :: codepoint where "dquote = 34"
definition comma :: codepoint where "comma = 44"
definition backslash :: codepoint where "backslash = 92"
definition lbrace :: codepoint where "lbrace = 123"
definition rbrace :: codepoint where "rbrace = 125"
definition squote :: codepoint where "squote = 39"

text \<open>
  \<^verbatim>\<open>str.isspace\<close> for one code point: U+0009..U+000D, U+001C..U+0020, U+0085, U+00A0,
  U+1680, U+2000..U+200A, U+2028, U+2029, U+202F, U+205F, U+3000.
\<close>

definition isspace :: "codepoint \<Rightarrow> bool" where
  "isspace c =
     ((9 \<le> c \<and> c \<le> 13) \<or> (28 \<le> c \<and> c \<le> 32) \<or> c = 133 \<or> c = 160 \<or> c = 5760 \<or>
      (8192 \<le> c \<and> c \<le> 8202) \<or> c = 8232 \<or> c = 8233 \<or> c = 8239 \<or> c = 8287 \<or> c = 12288)"

text \<open>\<^verbatim>\<open>s.strip()\<close>: leading and trailing whitespace removed.\<close>

definition str_strip :: "str \<Rightarrow> str" where
  "str_strip s = rev (dropWhile isspace (rev (dropWhile isspace s)))"

text \<open>\<^verbatim>\<open>s.split(sep)\<close> for a separator of one character; the result is never empty.\<close>

fun str_split :: "codepoint \<Rightarrow> str \<Rightarrow> str list" where
  "str_split sep [] = [[]]"
| "str_split sep (c # cs) =
     (if c = sep then [] # str_split sep cs
      else (case str_split sep cs of
              [] \<Rightarrow> [[c]]
            | p # ps \<Rightarrow> (c # p) # ps))"

text \<open>\<^verbatim>\<open>sep.join(xs)\<close>.\<close>

fun str_join :: "str \<Rightarrow> str list \<Rightarrow> str" where
  "str_join sep [] = []"
| "str_join sep [x] = x"
| "str_join sep (x # y # ys) = x @ sep @ str_join sep (y # ys)"

text \<open>\<^verbatim>\<open>s.replace(old, new)\<close> for an \<open>old\<close> of one character.\<close>

definition str_replace :: "codepoint \<Rightarrow> str \<Rightarrow> str \<Rightarrow> str" where
  "str_replace old new s = concat (map (\<lambda>c. if c = old then new else [c]) s)"

text \<open>
  Truth value of an optional string (\<^verbatim>\<open>not x\<close>): \<^verbatim>\<open>None\<close> and the empty string are
  false.
\<close>

definition py_not :: "str option \<Rightarrow> bool" where
  "py_not x = (case x of None \<Rightarrow> True | Some s \<Rightarrow> s = [])"

section \<open>Exceptions\<close>

datatype exn =
    AttributeError str
  | IndexError str
  | UnboundLocalError str
  | Psycopg2Error str
  | OpenAIError str
  | OtherException str

text \<open>\<^verbatim>\<open>str(e)\<close>.\<close>

fun exn_str :: "exn \<Rightarrow> str" where
  "exn_str (AttributeError m) = m"
| "exn_str (IndexError m) = m"
| "exn_str (UnboundLocalError m) = m"
| "exn_str (Psycopg2Error m) = m"
| "exn_str (OpenAIError m) = m"
| "exn_str (OtherException m) = m"

text \<open>What \<^verbatim>\<open>None.strip()\<close> raises.\<close>

definition none_has_no_strip :: exn where
  "none_has_no_strip =
     AttributeError
       ([squote] @ py ''NoneType'' @ [squote] @ py '' object has no attribute '' @
        [squote] @ py ''strip'' @ [squote])"

section \<open>The OpenAI chat completion call\<close>

text \<open>
  The keyword arguments of \<^verbatim>\<open>openai.chat.completions.create\<close>; a message is a pair of
  role and content. The temperature is the decimal literal of the source.
\<close>

record chat_request =
  model :: str
  messages :: "(str \<times> str) list"
  temperature :: rat
  max_tokens :: nat

text \<open>
  What the call does: it raises, or it returns a response, of which the code reads the
  content of each choice's message (\<^verbatim>\<open>None\<close> when the message has no text).
\<close>

datatype api_outcome = ApiRaises exn | ApiReturns "str option list"

section \<open>The store\<close>

text \<open>
  A row of \<^verbatim>\<open>user_notes\<close> as the INSERT passes it: the keywords as the array literal,
  the username possibly \<^verbatim>\<open>None\<close> (SQL NULL). Id and timestamp are assigned by the
  store and are not part of the parameters.
\<close>

record note_row =
  col_content :: str
  col_summary :: str
  col_sentiment :: str
  col_keywords :: str
  col_username :: "str option"

text \<open>The calls made on the psycopg2 driver, in order.\<close>

datatype pg_event =
    PgConnect
  | PgCursor
  | PgExecute note_row
  | PgFetchone
  | PgCommit
  | PgRollback
  | PgCursorClose
  | PgClose

text \<open>
  How the driver answers during one request: for each call, the exception it raises, if
  any. \<open>fetchone_raises\<close> stands for the whole of \<^verbatim>\<open>cur.fetchone()[0]\<close>.
\<close>

record pg_behaviour =
  connect_raises :: "exn option"
  cursor_raises :: "exn option"
  execute_raises :: "exn option"
  fetchone_raises :: "exn option"
  commit_raises :: "exn option"
  rollback_raises :: "exn option"
  cursor_close_raises :: "exn option"
  close_raises :: "exn option"

section \<open>The world a request runs in\<close>

text \<open>
  The two external collaborators and what has been done to them. \<open>openai_create w n r\<close>
  is the outcome of request \<open>r\<close> when \<open>n\<close> calls have been made before it, so that two
  equal requests may be answered differently. \<open>user_notes\<close> holds the committed rows.
  Output written with \<^verbatim>\<open>print\<close> is not modelled.
\<close>

record world =
  openai_create :: "nat \<Rightarrow> chat_request \<Rightarrow> api_outcome"
  openai_calls :: "chat_request list"
  pg :: pg_behaviour
  pg_log :: "pg_event list"
  user_notes :: "note_row list"

definition pg_emit :: "pg_event \<Rightarrow> world \<Rightarrow> world" where
  "pg_emit e w = w\<lparr>pg_log := pg_log w @ [e]\<rparr>"

section \<open>Persistence\<close>

datatype connection = Connection

text \<open>
  \<^verbatim>\<open>get_supabase_connection\<close>: the connection, or \<^verbatim>\<open>None\<close> when
  \<^verbatim>\<open>psycopg2.connect\<close> raises.
\<close>

definition get_supabase_connection :: "world \<Rightarrow> connection option \<times> world" where
  "get_supabase_connection w =
     (let w1 = pg_emit PgConnect w in
      case connect_raises (pg w) of
        None \<Rightarrow> (Some Connection, w1)
      | Some e \<Rightarrow> (None, w1))"

text \<open>
  The PostgreSQL array literal built from the keyword list: each element between double
  quotes, its double quotes replaced by backslash and double quote, joined by commas,
  between braces. The f-string of the source has backslashes inside its replacement
  field, which Python accepts from version 3.12 on; this is the value it has there.
\<close>

definition keywords_pg_array :: "str list \<Rightarrow> str" where
  "keywords_pg_array keywords =
     [lbrace] @
     str_join [comma]
       (map (\<lambda>k. [dquote] @ str_replace dquote [backslash, dquote] k @ [dquote]) keywords) @
     [rbrace]"

text \<open>
  \<^verbatim>\<open>save_note_to_database\<close> in the three parts of its \<^verbatim>\<open>try\<close> statement. The body
  returns what it returned or raised, whether \<^verbatim>\<open>cur\<close> was bound, and the world; a row is
  in \<open>user_notes\<close> once the commit has succeeded.
\<close>

definition save_try ::
  "world \<Rightarrow> str \<Rightarrow> str \<Rightarrow> str \<Rightarrow> str list \<Rightarrow> str option \<Rightarrow> (exn + bool) \<times> bool \<times> world" where
  "save_try w content summary sentiment keywords username =
     (let w1 = pg_emit PgCursor w in
      case cursor_raises (pg w) of
        Some e \<Rightarrow> (Inl e, False, w1)
      | None \<Rightarrow>
          (let row = \<lparr>col_content = content, col_summary = summary,
                       col_sentiment = sentiment,
                       col_keywords = keywords_pg_array keywords,
                       col_username = username\<rparr>;
               w2 = pg_emit (PgExecute row) w1 in
           case execute_raises (pg w) of
             Some e \<Rightarrow> (Inl e, True, w2)
           | None \<Rightarrow>
               (let w3 = pg_emit PgFetchone w2 in
                case fetchone_raises (pg w) of
                  Some e \<Rightarrow> (Inl e, True, w3)
                | None \<Rightarrow>
                    (let w4 = pg_emit PgCommit w3 in
                     case commit_raises (pg w) of
                       Some e \<Rightarrow> (Inl e, True, w4)
                     | None \<Rightarrow>
                         (Inr True, True,
                          w4\<lparr>user_notes := user_notes w4 @ [row]\<rparr>)))))"

text \<open>
  The two \<^verbatim>\<open>except\<close> clauses do the same: roll back and return \<^verbatim>\<open>False\<close>. An
  exception of the rollback leaves the clause.
\<close>

definition save_except :: "(exn + bool) \<times> world \<Rightarrow> (exn + bool) \<times> world" where
  "save_except rw =
     (case rw of
        (Inr b, w) \<Rightarrow> (Inr b, w)
      | (Inl e, w) \<Rightarrow>
          (let w1 = pg_emit PgRollback w in
           case rollback_raises (pg w) of
             Some e' \<Rightarrow> (Inl e', w1)
           | None \<Rightarrow> (Inr False, w1)))"

definition cur_is_unbound :: exn where
  "cur_is_unbound =
     UnboundLocalError
       (py ''cannot access local variable '' @ [squote] @ py ''cur'' @ [squote] @
        py '' where it is not associated with a value'')"

text \<open>
  The \<^verbatim>\<open>finally\<close> clause: \<^verbatim>\<open>cur.close()\<close>, then \<^verbatim>\<open>conn.close()\<close>. What it raises
  replaces the pending return value or exception; reading \<^verbatim>\<open>cur\<close> when
  \<^verbatim>\<open>conn.cursor()\<close> raised is an \<^verbatim>\<open>UnboundLocalError\<close>.
\<close>

definition save_finally :: "bool \<Rightarrow> (exn + bool) \<times> world \<Rightarrow> (exn + bool) \<times> world" where
  "save_finally cur_bound rw =
     (case rw of (r, w) \<Rightarrow>
        if \<not> cur_bound then (Inl cur_is_unbound, w)
        else
          (let w1 = pg_emit PgCursorClose w in
           case cursor_close_raises (pg w) of
             Some e \<Rightarrow> (Inl e, w1)
           | None \<Rightarrow>
               (let w2 = pg_emit PgClose w1 in
                case close_raises (pg w) of
                  Some e \<Rightarrow> (Inl e, w2)
                | None \<Rightarrow> (r, w2))))"

definition save_note_to_database ::
  "world \<Rightarrow> str \<Rightarrow> str \<Rightarrow> str \<Rightarrow> str list \<Rightarrow> str option \<Rightarrow> (exn + bool) \<times> world" where
  "save_note_to_database w content summary sentiment keywords username =
     (case get_supabase_connection w of
        (None, w0) \<Rightarrow> (Inr False, w0)
      | (Some conn, w0) \<Rightarrow>
          (case save_try w0 content summary sentiment keywords username of
             (r, cur_bound, w1) \<Rightarrow> save_finally cur_bound (save_except (r, w1))))"

section \<open>AI analysis\<close>

definition system_message :: str where
  "system_message = py ''You are a helpful AI assistant.''"

definition full_analysis_prompt :: "str \<Rightarrow> str" where
  "full_analysis_prompt text_input =
      [newline] @
      py ''You are an expert knowledge curator and cognitive cartographer, helping '' @
      py ''individuals map their learning journey.'' @ [newline] @
      py ''Your task is to analyze the following unstructured text, which '' @
      py ''describes a user's recent learning, consumption, or project experiences.'' @ [newline] @
      py ''From this text, you need to extract and categorize the following key '' @
      py ''elements of their knowledge landscape:'' @ [newline] @
      [newline] @
      py ''1.  **Core Concepts & Topics:** Identify the main subject matters or '' @
      py ''abstract ideas discussed.'' @ [newline] @
      py ''2.  **Key Skills & Technologies:** List any specific practical '' @
      py ''abilities or tools (e.g., programming languages, software, '' @
      py ''methodologies) mentioned or clearly implied as being used or learned.'' @ [newline] @
      py ''3.  **Cross-Cutting Competencies:** Identify broader, transferable '' @
      py ''skills demonstrated (e.g., Problem Solving, Data Analysis, '' @
      py ''Communication, Project Management, Critical Thinking, Leadership, User '' @
      py ''Research).'' @ [newline] @
      py ''4.  **Noteworthy Connections & Insights:** Describe any explicit or '' @
      py ''implicit relationships you find between the concepts, skills, or '' @
      py ''competencies. This is where you connect disparate pieces of learning.'' @ [newline] @
      [newline] @
      py ''**Instructions for Formatting the Output:**'' @ [newline] @
      py ''- Use clear, concise language.'' @ [newline] @
      py ''- Format each section with a bold heading.'' @ [newline] @
      py ''- Use bullet points for each item within a section.'' @ [newline] @
      py ''- For '' @ [dquote] @ py ''Core Concepts & Topics,'' @ [dquote] @ py '' provide a very brief, 1-sentence explanation if necessary.'' @ [newline] @
      py ''- For '' @ [dquote] @ py ''Noteworthy Connections & Insights,'' @ [dquote] @ py '' explain *how* different elements are related.'' @ [newline] @
      [newline] @
      py ''---'' @ [newline] @
      py ''User's Learning Content to Analyze:'' @ [newline] @
      [dquote] @ text_input @ [dquote] @ [newline] @
      py ''---'' @ [newline]"

definition user_prompt :: "str \<Rightarrow> str \<Rightarrow> str" where
  "user_prompt text_input prompt_type =
     (if prompt_type = py ''summary'' then
        py ''Summarize the following text concisely:'' @ [newline, newline] @ text_input
      else if prompt_type = py ''sentiment'' then
        py ''What is the sentiment of the following text (positive, negative, neutral)? '' @
        py ''Just provide the sentiment word.'' @ [newline, newline] @ text_input
      else if prompt_type = py ''keywords'' then
        py ''Extract 5-10 key keywords from the following text, separated by commas. '' @
        py ''Only provide the keywords.'' @ [newline, newline] @ text_input
      else if prompt_type = py ''full_analysis_prompt'' then
        full_analysis_prompt text_input
      else [])"

definition openai_request :: "str \<Rightarrow> str \<Rightarrow> chat_request" where
  "openai_request text_input prompt_type =
     \<lparr>model = py ''gpt-3.5-turbo'',
      messages = [(py ''system'', system_message),
                  (py ''user'', user_prompt text_input prompt_type)],
      temperature = 7 / 10,
      max_tokens = 500\<rparr>"

text \<open>
  \<^verbatim>\<open>response.choices[0].message.content.strip()\<close>, inside the \<^verbatim>\<open>try\<close>: an empty list
  of choices and a message without text raise there as well.
\<close>

definition first_choice_text :: "api_outcome \<Rightarrow> exn + str" where
  "first_choice_text outcome =
     (case outcome of
        ApiRaises e \<Rightarrow> Inl e
      | ApiReturns [] \<Rightarrow> Inl (IndexError (py ''list index out of range''))
      | ApiReturns (None # _) \<Rightarrow> Inl none_has_no_strip
      | ApiReturns (Some content # _) \<Rightarrow> Inr (str_strip content))"

definition get_ai_analysis :: "world \<Rightarrow> str \<Rightarrow> str \<Rightarrow> str \<times> world" where
  "get_ai_analysis w text_input prompt_type =
     (let request = openai_request text_input prompt_type;
          outcome = openai_create w (length (openai_calls w)) request;
          w1 = w\<lparr>openai_calls := openai_calls w @ [request]\<rparr> in
      case first_choice_text outcome of
        Inr text \<Rightarrow> (text, w1)
      | Inl e \<Rightarrow> (py ''Error: '' @ exn_str e, w1))"

definition parse_keywords_response :: "str \<Rightarrow> str list" where
  "parse_keywords_response response_text =
     [str_strip k. k \<leftarrow> str_split comma response_text, str_strip k \<noteq> []]"

section \<open>Requests and replies\<close>

text \<open>
  What Flask hands to a view: the form fields, whether the request has a JSON content
  type, and the parsed JSON body. The body is an object whose values are strings, as in
  the payload the web clipper sends; a key that is not there reads as \<^verbatim>\<open>None\<close>.
\<close>

record request =
  form :: "string \<rightharpoonup> str"
  is_json :: bool
  get_json :: "string \<rightharpoonup> str"

text \<open>
  The body a view returns: the object given to \<^verbatim>\<open>jsonify\<close>, a plain string, or the
  TwiML document of a \<^verbatim>\<open>MessagingResponse\<close> with one message. A reply is the body with
  its status code; a view that raises returns the exception instead.
\<close>

datatype body = Json "(str \<times> str) list" | Text str | Twiml str

type_synonym reply = "body \<times> nat"

section \<open>The three webhooks\<close>

definition sms_saved_message :: str where
  "sms_saved_message =
     py ''Your SMS note has been processed and saved to Micro-Atlas! '' @ [129504]"

text \<open>
  \<^verbatim>\<open>request.form.get('From', 'Unknown')\<close> and \<^verbatim>\<open>request.form.get('Body', '')\<close>: the
  default stands in only when the field is absent.
\<close>

definition sms_webhook :: "world \<Rightarrow> request \<Rightarrow> (exn + reply) \<times> world" where
  "sms_webhook w req =
     (let sender_number = (case form req ''From'' of None \<Rightarrow> py ''Unknown'' | Some v \<Rightarrow> v);
          message_body = (case form req ''Body'' of None \<Rightarrow> [] | Some v \<Rightarrow> v) in
      if str_strip message_body = [] then
        (Inr (Json [(py ''status'', py ''error''), (py ''message'', py ''Empty SMS body'')], 400), w)
      else
        (case get_ai_analysis w message_body (py ''summary'') of (summary, w1) \<Rightarrow>
         case get_ai_analysis w1 message_body (py ''sentiment'') of (sentiment, w2) \<Rightarrow>
         case get_ai_analysis w2 message_body (py ''keywords'') of (raw_keywords_response, w3) \<Rightarrow>
           (let keywords = parse_keywords_response raw_keywords_response;
                username_for_note = sender_number in
            case save_note_to_database w3 message_body summary sentiment keywords
                   (Some username_for_note) of
              (Inl e, w4) \<Rightarrow> (Inl e, w4)
            | (Inr True, w4) \<Rightarrow> (Inr (Twiml sms_saved_message, 200), w4)
            | (Inr False, w4) \<Rightarrow>
                (Inr (Twiml (py ''Failed to process your SMS note. Please try again.''), 500),
                 w4))))"

definition missing_url_or_text :: reply where
  "missing_url_or_text =
     (Json [(py ''error'',
             py ''Missing '' @ [squote] @ py ''url'' @ [squote] @ py '' or '' @ [squote] @
             py ''text'' @ [squote] @ py '' in request body'')],
      400)"

text \<open>
  \<^verbatim>\<open>if not clipped_url or not clipped_text.strip()\<close> is evaluated from the left: a url
  that is \<^verbatim>\<open>None\<close> or empty decides the test, and only otherwise is \<^verbatim>\<open>strip\<close> called on
  the text, which raises when the text is \<^verbatim>\<open>None\<close>.
\<close>

definition web_clip_webhook :: "world \<Rightarrow> request \<Rightarrow> (exn + reply) \<times> world" where
  "web_clip_webhook w req =
     (if \<not> is_json req then
        (Inr (Json [(py ''error'', py ''Request must be JSON'')], 400), w)
      else
        (let data = get_json req;
             clipped_url = data ''url'';
             clipped_text = data ''text'';
             username_for_note =
               (if py_not (data ''username'') then Some (py ''unknown_web_clipper'')
                else data ''username'') in
         case clipped_url of
           None \<Rightarrow> (Inr missing_url_or_text, w)
         | Some url \<Rightarrow>
             if url = [] then (Inr missing_url_or_text, w)
             else
               (case clipped_text of
                  None \<Rightarrow> (Inl none_has_no_strip, w)
                | Some text \<Rightarrow>
                    if str_strip text = [] then (Inr missing_url_or_text, w)
                    else
                      (let full_content =
                             py ''Web Clip from '' @ url @ py '':'' @ [newline, newline] @ text in
                       case get_ai_analysis w full_content (py ''summary'') of
                         (summary, w1) \<Rightarrow>
                       case get_ai_analysis w1 full_content (py ''sentiment'') of
                         (sentiment, w2) \<Rightarrow>
                       case get_ai_analysis w2 full_content (py ''keywords'') of
                         (raw_keywords_response, w3) \<Rightarrow>
                         (let keywords = parse_keywords_response raw_keywords_response in
                          case save_note_to_database w3 full_content summary sentiment keywords
                                 username_for_note of
                            (Inl e, w4) \<Rightarrow> (Inl e, w4)
                          | (Inr True, w4) \<Rightarrow>
                              (Inr (Json [(py ''message'', py ''Web clip received and saved!'')],
                                    200), w4)
                          | (Inr False, w4) \<Rightarrow>
                              (Inr (Json [(py ''error'', py ''Failed to save web clip'')], 500),
                               w4))))))"

text \<open>
  The three fields are read without a default. \<^verbatim>\<open>body_plain.strip()\<close> raises when the
  field is absent; \<^verbatim>\<open>if subject\<close> is false for a subject that is absent or empty.
\<close>

definition receive_email :: "world \<Rightarrow> request \<Rightarrow> (exn + reply) \<times> world" where
  "receive_email w req =
     (let sender = form req ''sender'';
          subject = form req ''subject'';
          body_plain = form req ''body-plain'' in
      case body_plain of
        None \<Rightarrow> (Inl none_has_no_strip, w)
      | Some body_text \<Rightarrow>
          if str_strip body_text = [] then (Inr (Text (py ''Missing email body''), 400), w)
          else
            (let full_content =
                   (case subject of
                      None \<Rightarrow> body_text
                    | Some subj \<Rightarrow>
                        if subj = [] then body_text
                        else py ''Subject: '' @ subj @ [newline, newline] @ body_text) in
             case get_ai_analysis w full_content (py ''summary'') of (summary, w1) \<Rightarrow>
             case get_ai_analysis w1 full_content (py ''sentiment'') of (sentiment, w2) \<Rightarrow>
             case get_ai_analysis w2 full_content (py ''keywords'') of
               (raw_keywords_response, w3) \<Rightarrow>
               (let keywords = parse_keywords_response raw_keywords_response in
                case save_note_to_database w3 full_content summary sentiment keywords sender of
                  (Inl e, w4) \<Rightarrow> (Inl e, w4)
                | (Inr True, w4) \<Rightarrow> (Inr (Text (py ''Email received and saved!''), 200), w4)
                | (Inr False, w4) \<Rightarrow> (Inr (Text (py ''Error saving email''), 500), w4))))"

section \<open>Vocabulary of the properties\<close>

text \<open>
  The keyword parsing as the specification words it: split on commas, trim every piece,
  discard the empty pieces, keep the order.
\<close>

definition keywords_spec :: "str \<Rightarrow> str list" where
  "keywords_spec raw = filter (\<lambda>piece. piece \<noteq> []) (map str_strip (str_split comma raw))"

text \<open>
  Modelled from the spec: the store's reader of array literals, which is PostgreSQL's and
  not part of the repository. It reads the form the specification describes for the
  writer: between braces, elements between double quotes and separated by commas; inside
  an element a backslash makes the next character literal. Any other text is refused.
\<close>

datatype pg_scan_state = ExpectElem | InElem str | InEscape str | AfterElem | Done

text \<open>
  Modelled from the spec: the scanner of that reader, which is not part of the repository.
  It steps through the text after the opening brace; the state says whether an element
  is expected, being read, or just closed, and \<open>acc\<close> holds the elements read so far,
  last first.
\<close>

fun pg_scan :: "pg_scan_state \<Rightarrow> str list \<Rightarrow> str \<Rightarrow> str list option" where
  "pg_scan st acc [] = (if st = Done then Some (rev acc) else None)"
| "pg_scan ExpectElem acc (c # cs) =
     (if c = dquote then pg_scan (InElem []) acc cs else None)"
| "pg_scan (InElem e) acc (c # cs) =
     (if c = dquote then pg_scan AfterElem (rev e # acc) cs
      else if c = backslash then pg_scan (InEscape e) acc cs
      else pg_scan (InElem (c # e)) acc cs)"
| "pg_scan (InEscape e) acc (c # cs) = pg_scan (InElem (c # e)) acc cs"
| "pg_scan AfterElem acc (c # cs) =
     (if c = comma then pg_scan ExpectElem acc cs
      else if c = rbrace then pg_scan Done acc cs
      else None)"
| "pg_scan Done acc (c # cs) = None"

text \<open>
  Modelled from the spec: the reader itself, which is not part of the repository. The
  literal of the empty array is a pair of braces.
\<close>

definition pg_array_parse :: "str \<Rightarrow> str list option" where
  "pg_array_parse s =
     (case s of
        [] \<Rightarrow> None
      | c # cs \<Rightarrow>
          if c \<noteq> lbrace then None
          else if cs = [rbrace] then Some []
          else pg_scan ExpectElem [] cs)"

text \<open>
  \<open>pg_commits\<close>: the store takes the row, that is every call up to the commit succeeds.
  \<open>pg_accepts\<close>: moreover the cursor and the connection close without an exception.
\<close>

definition pg_commits :: "pg_behaviour \<Rightarrow> bool" where
  "pg_commits b =
     (connect_raises b = None \<and> cursor_raises b = None \<and> execute_raises b = None \<and>
      fetchone_raises b = None \<and> commit_raises b = None)"

definition pg_accepts :: "pg_behaviour \<Rightarrow> bool" where
  "pg_accepts b =
     (pg_commits b \<and> cursor_close_raises b = None \<and> close_raises b = None)"

text \<open>
  The world after the three analysis calls on \<open>content\<close>, and the value the \<open>i\<close>-th of
  them (counted from 0) yields for its field.
\<close>

definition enriched :: "world \<Rightarrow> str \<Rightarrow> world" where
  "enriched w content =
     w\<lparr>openai_calls := openai_calls w @
          [openai_request content (py ''summary''),
           openai_request content (py ''sentiment''),
           openai_request content (py ''keywords'')]\<rparr>"

definition ai_value :: "world \<Rightarrow> nat \<Rightarrow> str \<Rightarrow> str \<Rightarrow> str" where
  "ai_value w i content prompt_type =
     (case first_choice_text
             (openai_create w (length (openai_calls w) + i) (openai_request content prompt_type)) of
        Inr text \<Rightarrow> text
      | Inl e \<Rightarrow> py ''Error: '' @ exn_str e)"

text \<open>Worlds and requests for the examples.\<close>

definition pg_ok :: pg_behaviour where
  "pg_ok =
     \<lparr>connect_raises = None, cursor_raises = None, execute_raises = None,
      fetchone_raises = None, commit_raises = None, rollback_raises = None,
      cursor_close_raises = None, close_raises = None\<rparr>"

definition pg_down :: pg_behaviour where
  "pg_down = pg_ok\<lparr>connect_raises := Some (Psycopg2Error (py ''could not connect to server''))\<rparr>"

definition fresh_world :: "(nat \<Rightarrow> chat_request \<Rightarrow> api_outcome) \<Rightarrow> pg_behaviour \<Rightarrow> world" where
  "fresh_world ai b =
     \<lparr>openai_create = ai, openai_calls = [], pg = b, pg_log = [], user_notes = []\<rparr>"

definition ai_ok :: "nat \<Rightarrow> chat_request \<Rightarrow> api_outcome" where
  "ai_ok n r = ApiReturns [Some (py ''ok'')]"



definition form_request :: "(string \<rightharpoonup> str) \<Rightarrow> request" where
  "form_request fs = \<lparr>form = fs, is_json = False, get_json = Map.empty\<rparr>"

definition json_request :: "(string \<rightharpoonup> str) \<Rightarrow> request" where
  "json_request data = \<lparr>form = Map.empty, is_json = True, get_json = data\<rparr>"

section \<open>Strings: splitting and trimming\<close>

lemmas char_defs = newline_def dquote_def comma_def backslash_def lbrace_def rbrace_def squote_def

lemma str_split_join: "str_join [sep] (str_split sep s) = s"
proof (induction s)
  case Nil
  show ?case by simp
next
  case (Cons c cs)
  then show ?case
    by (cases "str_split sep cs"; cases "tl (str_split sep cs)") (auto split: list.splits)
qed

lemma str_split_no_sep: "piece \<in> set (str_split sep s) \<Longrightarrow> sep \<notin> set piece"
  by (induction s arbitrary: piece) (auto split: list.splits if_splits)

lemma comprehension_filter_map:
  "concat (map (\<lambda>k. if f k \<noteq> [] then [f k] else []) xs) = filter (\<lambda>p. p \<noteq> []) (map f xs)"
  by (induction xs) auto

lemma last_dropWhile: "dropWhile P xs \<noteq> [] \<Longrightarrow> last (dropWhile P xs) = last xs"
  by (induction xs) (auto split: if_splits)

lemma str_strip_ends:
  assumes "str_strip s \<noteq> []"
  shows "\<not> isspace (hd (str_strip s)) \<and> \<not> isspace (last (str_strip s))"
proof -
  let ?y = "dropWhile isspace s"
  let ?x = "dropWhile isspace (rev ?y)"
  from assms have x: "?x \<noteq> []" by (simp add: str_strip_def)
  then have y: "?y \<noteq> []" by (metis dropWhile.simps(1) rev.simps(1))
  have "last (str_strip s) = hd ?x" using x by (simp add: str_strip_def last_rev)
  moreover have "\<not> isspace (hd ?x)" using x by (rule hd_dropWhile)
  moreover have "hd (str_strip s) = last ?x" using x by (simp add: str_strip_def hd_rev)
  moreover have "last ?x = last (rev ?y)" using x by (rule last_dropWhile)
  moreover have "last (rev ?y) = hd ?y" using y by (simp add: last_rev)
  moreover have "\<not> isspace (hd ?y)" using y by (rule hd_dropWhile)
  ultimately show ?thesis by simp
qed

section \<open>Keyword parsing\<close>

text \<open>
  C7. \<^verbatim>\<open>parse_keywords_response\<close> is the parsing the specification words: the input is
  split on commas (the pieces joined by commas give the input back, and no piece holds a
  comma), every piece is trimmed, the empty ones are dropped, the order is kept, nothing
  is folded to one case and nothing is deduplicated. No keyword of the result is empty,
  and none starts or ends with whitespace. The input \<^verbatim>\<open>ml, data ,  ,ai\<close> gives
  \<^verbatim>\<open>ml\<close>, \<^verbatim>\<open>data\<close>, \<^verbatim>\<open>ai\<close>.
\<close>

theorem parse_keywords_response_spec:
  "parse_keywords_response raw = keywords_spec raw \<and>
   str_join [comma] (str_split comma raw) = raw \<and>
   (\<forall>piece \<in> set (str_split comma raw). comma \<notin> set piece) \<and>
   (\<forall>k \<in> set (parse_keywords_response raw).
      k \<noteq> [] \<and> \<not> isspace (hd k) \<and> \<not> isspace (last k)) \<and>
   parse_keywords_response (py ''ml, data ,  ,ai'') = [py ''ml'', py ''data'', py ''ai''] \<and>
   parse_keywords_response (py ''AI, ai,AI,ai'') = [py ''AI'', py ''ai'', py ''AI'', py ''ai'']"
proof -
  have refines: "parse_keywords_response raw = keywords_spec raw"
    by (simp add: parse_keywords_response_def keywords_spec_def comprehension_filter_map)
  have trimmed: "\<forall>k \<in> set (parse_keywords_response raw).
      k \<noteq> [] \<and> \<not> isspace (hd k) \<and> \<not> isspace (last k)"
    unfolding refines keywords_spec_def using str_strip_ends by auto
  have ex1: "parse_keywords_response (py ''ml, data ,  ,ai'') = [py ''ml'', py ''data'', py ''ai'']"
    by (simp add: parse_keywords_response_def py_def comma_def str_strip_def isspace_def)
  have ex2: "parse_keywords_response (py ''AI, ai,AI,ai'') = [py ''AI'', py ''ai'', py ''AI'', py ''ai'']"
    by (simp add: parse_keywords_response_def py_def comma_def str_strip_def isspace_def)
  show ?thesis
    using refines trimmed ex1 ex2 str_split_join [of comma raw] str_split_no_sep [of _ comma raw]
    by blast
qed

theorem parse_keywords_response_spec_witness:
  "parse_keywords_response (py '' x ,,y'') = keywords_spec (py '' x ,,y'') \<and>
   keywords_spec (py '' x ,,y'') = [py ''x'', py ''y''] \<and>
   str_split comma (py '' x ,,y'') = [py '' x '', [], py ''y''] \<and>
   comma \<notin> set (py '' x '')"
proof -
  have split: "str_split comma (py '' x ,,y'') = [py '' x '', [], py ''y'']"
    by (simp add: py_def comma_def)
  have spec: "keywords_spec (py '' x ,,y'') = [py ''x'', py ''y'']"
    by (simp add: keywords_spec_def py_def comma_def str_strip_def isspace_def)
  show ?thesis
    using parse_keywords_response_spec [of "py '' x ,,y''"] split spec by simp
qed

section \<open>The analysis calls\<close>

lemma get_ai_analysis_eq:
  "get_ai_analysis w t p =
     (ai_value w 0 t p, w\<lparr>openai_calls := openai_calls w @ [openai_request t p]\<rparr>)"
  by (simp add: get_ai_analysis_def ai_value_def Let_def split: sum.splits)

lemma ai_value_shift:
  "ai_value (w\<lparr>openai_calls := openai_calls w @ xs\<rparr>) i t p = ai_value w (length xs + i) t p"
  by (simp add: ai_value_def add.assoc)

lemma three_calls:
  "(case get_ai_analysis w c (py ''summary'') of (summary, w1) \<Rightarrow>
    case get_ai_analysis w1 c (py ''sentiment'') of (sentiment, w2) \<Rightarrow>
    case get_ai_analysis w2 c (py ''keywords'') of (raw, w3) \<Rightarrow> k summary sentiment raw w3)
   = k (ai_value w 0 c (py ''summary'')) (ai_value w 1 c (py ''sentiment''))
       (ai_value w 2 c (py ''keywords'')) (enriched w c)"
  by (simp add: get_ai_analysis_eq ai_value_shift enriched_def ai_value_def)

lemma ai_value_raises:
  "openai_create w (length (openai_calls w) + i) (openai_request t p) = ApiRaises e \<Longrightarrow>
   ai_value w i t p = py ''Error: '' @ exn_str e"
  by (simp add: ai_value_def first_choice_text_def)

lemma ai_value_returns:
  "openai_create w (length (openai_calls w) + i) (openai_request t p) = ApiReturns (Some s # others) \<Longrightarrow>
   ai_value w i t p = str_strip s"
  by (simp add: ai_value_def first_choice_text_def)

lemma enriched_fields:
  "pg (enriched w c) = pg w"
  "pg_log (enriched w c) = pg_log w"
  "user_notes (enriched w c) = user_notes w"
  "openai_calls (enriched w c) = openai_calls w @
     [openai_request c (py ''summary''), openai_request c (py ''sentiment''),
      openai_request c (py ''keywords'')]"
  by (simp_all add: enriched_def)

section \<open>Saving a note\<close>

lemmas save_defs = save_note_to_database_def get_supabase_connection_def save_try_def
  save_except_def save_finally_def pg_emit_def Let_def

lemma save_accepted:
  "pg_accepts (pg w) \<Longrightarrow>
   save_note_to_database w c s se k u =
     (Inr True,
      w\<lparr>pg_log := pg_log w @
           [PgConnect, PgCursor,
            PgExecute \<lparr>col_content = c, col_summary = s, col_sentiment = se,
                       col_keywords = keywords_pg_array k, col_username = u\<rparr>,
            PgFetchone, PgCommit, PgCursorClose, PgClose],
         user_notes := user_notes w @
           [\<lparr>col_content = c, col_summary = s, col_sentiment = se,
             col_keywords = keywords_pg_array k, col_username = u\<rparr>]\<rparr>)"
  by (simp add: save_defs pg_accepts_def pg_commits_def)

lemma save_without_connection:
  "connect_raises (pg w) = Some e \<Longrightarrow>
   save_note_to_database w c s se k u = (Inr False, w\<lparr>pg_log := pg_log w @ [PgConnect]\<rparr>)"
  by (simp add: save_defs)

lemma save_keeps_openai:
  "openai_calls (snd (save_note_to_database w c s se k u)) = openai_calls w"
  by (simp add: save_defs split: option.splits)

lemma save_contacts_store:
  "\<exists>rest. pg_log (snd (save_note_to_database w c s se k u)) = pg_log w @ PgConnect # rest"
  by (simp add: save_defs split: option.splits)

lemma save_user_notes:
  "user_notes (snd (save_note_to_database w c s se k u)) =
     user_notes w @
     (if pg_commits (pg w)
      then [\<lparr>col_content = c, col_summary = s, col_sentiment = se,
              col_keywords = keywords_pg_array k, col_username = u\<rparr>]
      else [])"
  by (simp add: save_defs pg_commits_def split: option.splits)

lemma save_true_iff:
  "fst (save_note_to_database w c s se k u) = Inr True \<longleftrightarrow> pg_accepts (pg w)"
  by (auto simp add: save_defs pg_accepts_def pg_commits_def split: option.splits)

lemma save_false_after_rollback:
  assumes "connect_raises (pg w) = None" and "cursor_raises (pg w) = None"
    and "execute_raises (pg w) \<noteq> None \<or> fetchone_raises (pg w) \<noteq> None \<or>
         commit_raises (pg w) \<noteq> None"
    and "rollback_raises (pg w) = None" and "cursor_close_raises (pg w) = None"
    and "close_raises (pg w) = None"
  shows "fst (save_note_to_database w c s se k u) = Inr False \<and>
         PgRollback \<in> set (pg_log (snd (save_note_to_database w c s se k u))) \<and>
         user_notes (snd (save_note_to_database w c s se k u)) = user_notes w"
  using assms by (auto simp add: save_defs split: option.splits)

section \<open>The webhooks on a request that passes validation\<close>

lemma sms_valid:
  assumes "str_strip (case form req ''Body'' of None \<Rightarrow> [] | Some v \<Rightarrow> v) \<noteq> []"
  shows "sms_webhook w req =
     (let b = (case form req ''Body'' of None \<Rightarrow> [] | Some v \<Rightarrow> v);
          r = save_note_to_database (enriched w b) b
                (ai_value w 0 b (py ''summary'')) (ai_value w 1 b (py ''sentiment''))
                (parse_keywords_response (ai_value w 2 b (py ''keywords'')))
                (Some (case form req ''From'' of None \<Rightarrow> py ''Unknown'' | Some v \<Rightarrow> v)) in
      (case fst r of
         Inl e \<Rightarrow> Inl e
       | Inr True \<Rightarrow> Inr (Twiml sms_saved_message, 200)
       | Inr False \<Rightarrow>
           Inr (Twiml (py ''Failed to process your SMS note. Please try again.''), 500),
       snd r))"
  using assms
  by (simp add: sms_webhook_def three_calls Let_def split: prod.splits sum.splits bool.splits)

lemma web_clip_valid:
  assumes "is_json req" and "get_json req ''url'' = Some url" and "url \<noteq> []"
    and "get_json req ''text'' = Some t" and "str_strip t \<noteq> []"
  shows "web_clip_webhook w req =
     (let c = py ''Web Clip from '' @ url @ py '':'' @ [newline, newline] @ t;
          r = save_note_to_database (enriched w c) c
                (ai_value w 0 c (py ''summary'')) (ai_value w 1 c (py ''sentiment''))
                (parse_keywords_response (ai_value w 2 c (py ''keywords'')))
                (if py_not (get_json req ''username'') then Some (py ''unknown_web_clipper'')
                 else get_json req ''username'') in
      (case fst r of
         Inl e \<Rightarrow> Inl e
       | Inr True \<Rightarrow> Inr (Json [(py ''message'', py ''Web clip received and saved!'')], 200)
       | Inr False \<Rightarrow> Inr (Json [(py ''error'', py ''Failed to save web clip'')], 500),
       snd r))"
  using assms
  by (simp add: web_clip_webhook_def three_calls Let_def
           split: prod.splits sum.splits bool.splits)

lemma receive_email_valid:
  assumes "form req ''body-plain'' = Some b" and "str_strip b \<noteq> []"
  shows "receive_email w req =
     (let c = (case form req ''subject'' of
                 None \<Rightarrow> b
               | Some subj \<Rightarrow>
                   if subj = [] then b else py ''Subject: '' @ subj @ [newline, newline] @ b);
          r = save_note_to_database (enriched w c) c
                (ai_value w 0 c (py ''summary'')) (ai_value w 1 c (py ''sentiment''))
                (parse_keywords_response (ai_value w 2 c (py ''keywords'')))
                (form req ''sender'') in
      (case fst r of
         Inl e \<Rightarrow> Inl e
       | Inr True \<Rightarrow> Inr (Text (py ''Email received and saved!''), 200)
       | Inr False \<Rightarrow> Inr (Text (py ''Error saving email''), 500),
       snd r))"
  using assms
  by (simp add: receive_email_def three_calls Let_def
           split: prod.splits sum.splits bool.splits)

section \<open>Failure isolation of the analysis\<close>





section \<open>What \<^verbatim>\<open>save_note_to_database\<close> returns\<close>

text \<open>
  The parts of the contract that hold are \<open>save_without_connection\<close> (no connection:
  \<^verbatim>\<open>False\<close>, nothing but the connection attempt, no row), \<open>save_true_iff\<close> with
  \<open>save_user_notes\<close> (\<^verbatim>\<open>True\<close> only after the commit, and the row is then written) and
  \<open>save_false_after_rollback\<close> (an exception of the insert, of reading the id or of the
  commit is answered by a rollback and \<^verbatim>\<open>False\<close>, provided the rollback and the two
  closing calls succeed). The next two lemmas are the paths on which the function
  raises instead.
\<close>

lemma save_raises_when_cursor_fails:
  assumes "connect_raises (pg w) = None" and "cursor_raises (pg w) = Some e"
    and "rollback_raises (pg w) = None"
  shows "save_note_to_database w c s se k u =
           (Inl cur_is_unbound, w\<lparr>pg_log := pg_log w @ [PgConnect, PgCursor, PgRollback]\<rparr>)"
  using assms by (simp add: save_defs)

lemma save_raises_when_rollback_fails:
  assumes "connect_raises (pg w) = None" and "cursor_raises (pg w) = None"
    and "execute_raises (pg w) = Some e" and "rollback_raises (pg w) = Some e'"
    and "cursor_close_raises (pg w) = None" and "close_raises (pg w) = None"
  shows "fst (save_note_to_database w c s se k u) = Inl e' \<and>
         user_notes (snd (save_note_to_database w c s se k u)) = user_notes w"
  using assms by (simp add: save_defs)

text \<open>
  C2. The claim is that every exception during the operation ends in a rollback and the
  return value \<^verbatim>\<open>False\<close>. Two runs of the code where it raises instead: when
  \<^verbatim>\<open>conn.cursor()\<close> raises, the \<^verbatim>\<open>finally\<close> clause reads the unbound \<^verbatim>\<open>cur\<close> and the
  call ends in an \<^verbatim>\<open>UnboundLocalError\<close> (the connection is not closed either); when the
  insert fails because the connection is lost and the rollback raises in turn, that
  exception leaves the function.
\<close>

theorem save_note_raises_instead_of_false:
  "save_note_to_database
     (fresh_world ai_ok
        (pg_ok\<lparr>cursor_raises := Some (Psycopg2Error (py ''connection already closed''))\<rparr>))
     (py ''note'') (py ''summary'') (py ''neutral'') [py ''k''] (Some (py ''+1555''))
   = (Inl cur_is_unbound,
      fresh_world ai_ok
        (pg_ok\<lparr>cursor_raises := Some (Psycopg2Error (py ''connection already closed''))\<rparr>)
        \<lparr>pg_log := [PgConnect, PgCursor, PgRollback]\<rparr>) \<and>
   fst (save_note_to_database
     (fresh_world ai_ok
        (pg_ok\<lparr>execute_raises :=
                  Some (Psycopg2Error (py ''server closed the connection unexpectedly'')),
                rollback_raises := Some (Psycopg2Error (py ''connection already closed''))\<rparr>))
     (py ''note'') (py ''summary'') (py ''neutral'') [py ''k''] (Some (py ''+1555'')))
   = Inl (Psycopg2Error (py ''connection already closed''))"
  by (simp add: save_defs fresh_world_def pg_ok_def)

section \<open>Requests that fail validation\<close>

lemma sms_empty_body:
  "str_strip (case form req ''Body'' of None \<Rightarrow> [] | Some v \<Rightarrow> v) = [] \<Longrightarrow>
   sms_webhook w req =
     (Inr (Json [(py ''status'', py ''error''), (py ''message'', py ''Empty SMS body'')], 400), w)"
  by (simp add: sms_webhook_def)

lemma web_clip_missing_url:
  "is_json req \<Longrightarrow> py_not (get_json req ''url'') \<Longrightarrow>
   web_clip_webhook w req = (Inr missing_url_or_text, w)"
  by (simp add: web_clip_webhook_def py_not_def Let_def split: option.splits)

lemma web_clip_blank_text:
  "is_json req \<Longrightarrow> get_json req ''text'' = Some t \<Longrightarrow> str_strip t = [] \<Longrightarrow>
   web_clip_webhook w req = (Inr missing_url_or_text, w)"
  by (simp add: web_clip_webhook_def Let_def split: option.splits)

lemma web_clip_missing_text:
  "is_json req \<Longrightarrow> get_json req ''url'' = Some url \<Longrightarrow> url \<noteq> [] \<Longrightarrow>
   get_json req ''text'' = None \<Longrightarrow>
   web_clip_webhook w req = (Inl none_has_no_strip, w)"
  by (simp add: web_clip_webhook_def Let_def)

lemma receive_email_blank_body:
  "form req ''body-plain'' = Some b \<Longrightarrow> str_strip b = [] \<Longrightarrow>
   receive_email w req = (Inr (Text (py ''Missing email body''), 400), w)"
  by (simp add: receive_email_def)

lemma receive_email_missing_body:
  "form req ''body-plain'' = None \<Longrightarrow> receive_email w req = (Inl none_has_no_strip, w)"
  by (simp add: receive_email_def)

text \<open>
  C3. The claim is that a web clip without \<^verbatim>\<open>url\<close> or without \<^verbatim>\<open>text\<close> is answered by
  the 400 reply. It is when the url is missing or empty (\<open>web_clip_missing_url\<close>) and when
  the text is blank (\<open>web_clip_blank_text\<close>). A JSON body that has a url and no text is
  not: \<^verbatim>\<open>clipped_text.strip()\<close> is evaluated on \<^verbatim>\<open>None\<close> and the view raises an
  \<^verbatim>\<open>AttributeError\<close>. Nothing is enriched or persisted: the world is unchanged.
\<close>

theorem web_clip_without_text_raises:
  "web_clip_webhook w (json_request [''url'' \<mapsto> py ''https://example.org/a'']) =
     (Inl none_has_no_strip, w)"
  by (simp add: web_clip_webhook_def json_request_def Let_def py_def)

text \<open>
  C4. The claim is that an email without \<^verbatim>\<open>body-plain\<close> is answered by the 400 reply
  \<^verbatim>\<open>Missing email body\<close>. A blank body is (\<open>receive_email_blank_body\<close>); when the field is
  absent, \<^verbatim>\<open>body_plain.strip()\<close> is evaluated on \<^verbatim>\<open>None\<close> and the view raises an
  \<^verbatim>\<open>AttributeError\<close>. Nothing is enriched or persisted: the world is unchanged.
\<close>

theorem receive_email_without_body_raises:
  "receive_email w
     (form_request [''sender'' \<mapsto> py ''ann@example.org'', ''subject'' \<mapsto> py ''Hello'']) =
     (Inl none_has_no_strip, w)"
  by (simp add: receive_email_def form_request_def Let_def)

section \<open>The SMS pipeline\<close>

text \<open>
  C6, as stated, fails: an SMS with a body is not always answered with success. With the
  body \<^verbatim>\<open>hi\<close> and a store that cannot be reached the reply is the failure reply with
  status 500, and no row is written.
\<close>

theorem sms_store_down_counterexample:
  "str_strip (py ''hi'') \<noteq> [] \<and>
   fst (sms_webhook (fresh_world ai_ok pg_down)
          (form_request [''Body'' \<mapsto> py ''hi'', ''From'' \<mapsto> py ''+1555'']))
     = Inr (Twiml (py ''Failed to process your SMS note. Please try again.''), 500) \<and>
   user_notes (snd (sms_webhook (fresh_world ai_ok pg_down)
          (form_request [''Body'' \<mapsto> py ''hi'', ''From'' \<mapsto> py ''+1555''])))
     = []"
proof -
  have h: "str_strip (py ''hi'') \<noteq> []"
    by (simp add: py_def str_strip_def isspace_def)
  have c: "connect_raises (pg (enriched (fresh_world ai_ok pg_down) (py ''hi''))) =
             Some (Psycopg2Error (py ''could not connect to server''))"
    by (simp add: enriched_fields fresh_world_def pg_down_def)
  have r: "sms_webhook (fresh_world ai_ok pg_down)
             (form_request [''Body'' \<mapsto> py ''hi'', ''From'' \<mapsto> py ''+1555'']) =
           (Inr (Twiml (py ''Failed to process your SMS note. Please try again.''), 500),
            enriched (fresh_world ai_ok pg_down) (py ''hi'')
              \<lparr>pg_log := pg_log (enriched (fresh_world ai_ok pg_down) (py ''hi'')) @ [PgConnect]\<rparr>)"
    using h by (simp add: sms_valid form_request_def Let_def save_without_connection [OF c])
  show ?thesis
    unfolding r using h by (simp add: enriched_def fresh_world_def)
qed

text \<open>
  C6, amended. For an SMS whose body is not empty after trimming, the reply is the
  success reply exactly when the store accepts the insert, and the failure reply with
  status 500 when the store cannot be reached; the row written, if the store commits,
  has the body verbatim as content and the \<^verbatim>\<open>From\<close> value as username, \<^verbatim>\<open>Unknown\<close> when
  the field is absent. For an SMS whose body is empty or blank the reply is the 400
  reply and the world is unchanged: nothing is enriched or persisted.
\<close>

theorem sms_pipeline:
  "(str_strip (case form req ''Body'' of None \<Rightarrow> [] | Some v \<Rightarrow> v) \<noteq> [] \<longrightarrow>
      (fst (sms_webhook w req) = Inr (Twiml sms_saved_message, 200) \<longleftrightarrow> pg_accepts (pg w)) \<and>
      (connect_raises (pg w) \<noteq> None \<longrightarrow>
         fst (sms_webhook w req) =
           Inr (Twiml (py ''Failed to process your SMS note. Please try again.''), 500)) \<and>
      map (\<lambda>r. (col_content r, col_username r)) (user_notes (snd (sms_webhook w req))) =
        map (\<lambda>r. (col_content r, col_username r)) (user_notes w) @
        (if pg_commits (pg w)
         then [(case form req ''Body'' of None \<Rightarrow> [] | Some v \<Rightarrow> v,
                Some (case form req ''From'' of None \<Rightarrow> py ''Unknown'' | Some v \<Rightarrow> v))]
         else [])) \<and>
   (str_strip (case form req ''Body'' of None \<Rightarrow> [] | Some v \<Rightarrow> v) = [] \<longrightarrow>
      sms_webhook w req =
        (Inr (Json [(py ''status'', py ''error''), (py ''message'', py ''Empty SMS body'')], 400),
         w))"
proof (intro conjI impI)
  let ?b = "case form req ''Body'' of None \<Rightarrow> [] | Some v \<Rightarrow> v"
  let ?save = "save_note_to_database (enriched w ?b) ?b
                (ai_value w 0 ?b (py ''summary'')) (ai_value w 1 ?b (py ''sentiment''))
                (parse_keywords_response (ai_value w 2 ?b (py ''keywords'')))
                (Some (case form req ''From'' of None \<Rightarrow> py ''Unknown'' | Some v \<Rightarrow> v))"
  assume valid: "str_strip ?b \<noteq> []"
  have reply: "fst (sms_webhook w req) =
      (case fst ?save of
         Inl e \<Rightarrow> Inl e
       | Inr True \<Rightarrow> Inr (Twiml sms_saved_message, 200)
       | Inr False \<Rightarrow>
           Inr (Twiml (py ''Failed to process your SMS note. Please try again.''), 500))"
    and world: "snd (sms_webhook w req) = snd ?save"
    using valid by (simp_all add: sms_valid Let_def)
  have "fst (sms_webhook w req) = Inr (Twiml sms_saved_message, 200) \<longleftrightarrow> fst ?save = Inr True"
    unfolding reply by (auto split: sum.splits bool.splits)
  then show "fst (sms_webhook w req) = Inr (Twiml sms_saved_message, 200) \<longleftrightarrow> pg_accepts (pg w)"
    by (simp add: save_true_iff enriched_fields)
  show "map (\<lambda>r. (col_content r, col_username r)) (user_notes (snd (sms_webhook w req))) =
        map (\<lambda>r. (col_content r, col_username r)) (user_notes w) @
        (if pg_commits (pg w)
         then [(?b, Some (case form req ''From'' of None \<Rightarrow> py ''Unknown'' | Some v \<Rightarrow> v))]
         else [])"
    unfolding world by (simp add: save_user_notes enriched_fields)
  {
    assume "connect_raises (pg w) \<noteq> None"
    then obtain e where "connect_raises (pg (enriched w ?b)) = Some e"
      by (auto simp add: enriched_fields)
    then have "fst ?save = Inr False"
      by (simp add: save_without_connection)
    then show "fst (sms_webhook w req) =
        Inr (Twiml (py ''Failed to process your SMS note. Please try again.''), 500)"
      unfolding reply by simp
  }
next
  assume "str_strip (case form req ''Body'' of None \<Rightarrow> [] | Some v \<Rightarrow> v) = []"
  then show "sms_webhook w req =
      (Inr (Json [(py ''status'', py ''error''), (py ''message'', py ''Empty SMS body'')], 400), w)"
    by (rule sms_empty_body)
qed

theorem sms_pipeline_witness:
  "fst (sms_webhook (fresh_world ai_ok pg_ok) (form_request [''Body'' \<mapsto> py ''buy milk'']))
     = Inr (Twiml sms_saved_message, 200) \<and>
   map (\<lambda>r. (col_content r, col_username r))
     (user_notes (snd (sms_webhook (fresh_world ai_ok pg_ok)
        (form_request [''Body'' \<mapsto> py ''buy milk'']))))
     = [(py ''buy milk'', Some (py ''Unknown''))] \<and>
   fst (sms_webhook (fresh_world ai_ok pg_down) (form_request [''Body'' \<mapsto> py ''buy milk'']))
     = Inr (Twiml (py ''Failed to process your SMS note. Please try again.''), 500) \<and>
   sms_webhook (fresh_world ai_ok pg_ok) (form_request [''Body'' \<mapsto> py ''  '', ''From'' \<mapsto> py ''+1555''])
     = (Inr (Json [(py ''status'', py ''error''), (py ''message'', py ''Empty SMS body'')], 400),
        fresh_world ai_ok pg_ok)"
proof -
  have h: "str_strip (py ''buy milk'') \<noteq> []" "str_strip (py ''  '') = []"
    by (simp_all add: py_def str_strip_def isspace_def)
  show ?thesis
    using sms_pipeline [of "form_request [''Body'' \<mapsto> py ''buy milk'']" "fresh_world ai_ok pg_ok"]
      sms_pipeline [of "form_request [''Body'' \<mapsto> py ''buy milk'']" "fresh_world ai_ok pg_down"]
      sms_pipeline [of "form_request [''Body'' \<mapsto> py ''  '', ''From'' \<mapsto> py ''+1555'']"
                       "fresh_world ai_ok pg_ok"]
    by (simp add: h form_request_def fresh_world_def pg_ok_def pg_down_def pg_accepts_def
                  pg_commits_def)
qed

section \<open>Rows and calls of a validated request\<close>

lemma sms_world:
  assumes "str_strip b \<noteq> []" and "b = (case form req ''Body'' of None \<Rightarrow> [] | Some v \<Rightarrow> v)"
  shows "snd (sms_webhook w req) =
     snd (save_note_to_database (enriched w b) b
            (ai_value w 0 b (py ''summary'')) (ai_value w 1 b (py ''sentiment''))
            (parse_keywords_response (ai_value w 2 b (py ''keywords'')))
            (Some (case form req ''From'' of None \<Rightarrow> py ''Unknown'' | Some v \<Rightarrow> v)))"
  using assms by (simp add: sms_valid Let_def)

lemma web_clip_world:
  assumes "is_json req" and "get_json req ''url'' = Some url" and "url \<noteq> []"
    and "get_json req ''text'' = Some t" and "str_strip t \<noteq> []"
    and "c = py ''Web Clip from '' @ url @ py '':'' @ [newline, newline] @ t"
  shows "snd (web_clip_webhook w req) =
     snd (save_note_to_database (enriched w c) c
            (ai_value w 0 c (py ''summary'')) (ai_value w 1 c (py ''sentiment''))
            (parse_keywords_response (ai_value w 2 c (py ''keywords'')))
            (if py_not (get_json req ''username'') then Some (py ''unknown_web_clipper'')
             else get_json req ''username''))"
  using assms by (simp add: web_clip_valid [where url = url and t = t] Let_def)

lemma receive_email_world:
  assumes "form req ''body-plain'' = Some b" and "str_strip b \<noteq> []"
    and "c = (case form req ''subject'' of
                None \<Rightarrow> b
              | Some subj \<Rightarrow>
                  if subj = [] then b else py ''Subject: '' @ subj @ [newline, newline] @ b)"
  shows "snd (receive_email w req) =
     snd (save_note_to_database (enriched w c) c
            (ai_value w 0 c (py ''summary'')) (ai_value w 1 c (py ''sentiment''))
            (parse_keywords_response (ai_value w 2 c (py ''keywords'')))
            (form req ''sender''))"
  using assms by (simp add: receive_email_valid [where b = b] Let_def)

lemma pairs_of_saved:
  "map (\<lambda>r. (col_content r, col_username r))
     (user_notes (snd (save_note_to_database (enriched w c) c s se k u))) =
   map (\<lambda>r. (col_content r, col_username r)) (user_notes w) @
   (if pg_commits (pg w) then [(c, u)] else [])"
  by (simp add: save_user_notes enriched_fields)

section \<open>Content and username of the persisted note\<close>

text \<open>
  C5, as stated, fails where a field is present and empty. A web clip whose
  \<^verbatim>\<open>username\<close> is the empty string is stored under \<^verbatim>\<open>unknown_web_clipper\<close>, not under
  the payload's username; an email whose \<^verbatim>\<open>subject\<close> is the empty string is stored with
  the body alone as content, not with a \<^verbatim>\<open>Subject: \<close> header.
\<close>

theorem empty_username_and_subject_counterexample:
  "map (\<lambda>r. (col_content r, col_username r))
     (user_notes (snd (web_clip_webhook (fresh_world ai_ok pg_ok)
        (json_request [''url'' \<mapsto> py ''https://example.org/a'', ''text'' \<mapsto> py ''clip'',
                       ''username'' \<mapsto> []]))))
     = [(py ''Web Clip from https://example.org/a:'' @ [newline, newline] @ py ''clip'',
         Some (py ''unknown_web_clipper''))] \<and>
   py ''unknown_web_clipper'' \<noteq> [] \<and>
   map col_content
     (user_notes (snd (receive_email (fresh_world ai_ok pg_ok)
        (form_request [''sender'' \<mapsto> py ''ann@example.org'', ''subject'' \<mapsto> [],
                       ''body-plain'' \<mapsto> py ''hello'']))))
     = [py ''hello''] \<and>
   py ''hello'' \<noteq> py ''Subject: '' @ [] @ [newline, newline] @ py ''hello''"
proof -
  have h: "str_strip (py ''clip'') \<noteq> []" "str_strip (py ''hello'') \<noteq> []"
    by (simp_all add: py_def str_strip_def isspace_def)
  have pg: "pg_commits (pg (fresh_world ai_ok pg_ok))"
    by (simp add: fresh_world_def pg_ok_def pg_commits_def)
  have web: "user_notes (snd (web_clip_webhook (fresh_world ai_ok pg_ok)
        (json_request [''url'' \<mapsto> py ''https://example.org/a'', ''text'' \<mapsto> py ''clip'',
                       ''username'' \<mapsto> []]))) =
     user_notes (snd (save_note_to_database
        (enriched (fresh_world ai_ok pg_ok)
           (py ''Web Clip from '' @ py ''https://example.org/a'' @ py '':'' @ [newline, newline] @
            py ''clip''))
        (py ''Web Clip from '' @ py ''https://example.org/a'' @ py '':'' @ [newline, newline] @
         py ''clip'')
        (ai_value (fresh_world ai_ok pg_ok) 0
           (py ''Web Clip from '' @ py ''https://example.org/a'' @ py '':'' @ [newline, newline] @
            py ''clip'') (py ''summary''))
        (ai_value (fresh_world ai_ok pg_ok) 1
           (py ''Web Clip from '' @ py ''https://example.org/a'' @ py '':'' @ [newline, newline] @
            py ''clip'') (py ''sentiment''))
        (parse_keywords_response (ai_value (fresh_world ai_ok pg_ok) 2
           (py ''Web Clip from '' @ py ''https://example.org/a'' @ py '':'' @ [newline, newline] @
            py ''clip'') (py ''keywords'')))
        (Some (py ''unknown_web_clipper''))))"
    by (subst web_clip_world [where url = "py ''https://example.org/a''" and t = "py ''clip''"])
       (simp_all add: json_request_def h py_not_def, simp add: py_def)
  have mail: "user_notes (snd (receive_email (fresh_world ai_ok pg_ok)
        (form_request [''sender'' \<mapsto> py ''ann@example.org'', ''subject'' \<mapsto> [],
                       ''body-plain'' \<mapsto> py ''hello'']))) =
     user_notes (snd (save_note_to_database
        (enriched (fresh_world ai_ok pg_ok) (py ''hello'')) (py ''hello'')
        (ai_value (fresh_world ai_ok pg_ok) 0 (py ''hello'') (py ''summary''))
        (ai_value (fresh_world ai_ok pg_ok) 1 (py ''hello'') (py ''sentiment''))
        (parse_keywords_response (ai_value (fresh_world ai_ok pg_ok) 2 (py ''hello'') (py ''keywords'')))
        (Some (py ''ann@example.org''))))"
    by (subst receive_email_world [where b = "py ''hello''" and c = "py ''hello''"])
       (simp_all add: form_request_def h)
  have rows: "user_notes (fresh_world ai_ok pg_ok) = []"
    by (simp add: fresh_world_def)
  show ?thesis
    unfolding web mail
    by (simp add: save_user_notes enriched_fields pg rows) (simp add: py_def)
qed

text \<open>
  C5, amended. For a web clip that passes validation (a non-empty \<^verbatim>\<open>url\<close>, a \<^verbatim>\<open>text\<close>
  that is not blank), the note written when the store commits has the content
  \<^verbatim>\<open>Web Clip from {url}:\<close>, two newlines and the text, and as username the payload's
  \<^verbatim>\<open>username\<close> when that is present and not empty, \<^verbatim>\<open>unknown_web_clipper\<close> when it is
  absent or empty. For an email that passes validation, the content is \<^verbatim>\<open>Subject: \<close>,
  the subject, two newlines and the body when the subject is present and not empty, and
  the body alone when the subject is absent or empty. No other row is written.
\<close>

theorem persisted_content_and_username:
  "(is_json req \<and> get_json req ''url'' = Some url \<and> url \<noteq> [] \<and>
    get_json req ''text'' = Some t \<and> str_strip t \<noteq> [] \<longrightarrow>
      map (\<lambda>r. (col_content r, col_username r)) (user_notes (snd (web_clip_webhook w req))) =
        map (\<lambda>r. (col_content r, col_username r)) (user_notes w) @
        (if pg_commits (pg w)
         then [(py ''Web Clip from '' @ url @ py '':'' @ [newline, newline] @ t,
                Some (case get_json req ''username'' of
                        None \<Rightarrow> py ''unknown_web_clipper''
                      | Some name \<Rightarrow> if name = [] then py ''unknown_web_clipper'' else name))]
         else [])) \<and>
   (form req ''body-plain'' = Some b \<and> str_strip b \<noteq> [] \<longrightarrow>
      map col_content (user_notes (snd (receive_email w req))) =
        map col_content (user_notes w) @
        (if pg_commits (pg w)
         then [case form req ''subject'' of
                 None \<Rightarrow> b
               | Some subj \<Rightarrow>
                   if subj = [] then b else py ''Subject: '' @ subj @ [newline, newline] @ b]
         else []))"
proof (intro conjI impI)
  assume a: "is_json req \<and> get_json req ''url'' = Some url \<and> url \<noteq> [] \<and>
    get_json req ''text'' = Some t \<and> str_strip t \<noteq> []"
  have u: "(if py_not (get_json req ''username'') then Some (py ''unknown_web_clipper'')
            else get_json req ''username'') =
           Some (case get_json req ''username'' of
                   None \<Rightarrow> py ''unknown_web_clipper''
                 | Some name \<Rightarrow> if name = [] then py ''unknown_web_clipper'' else name)"
    by (simp add: py_not_def split: option.splits)
  show "map (\<lambda>r. (col_content r, col_username r)) (user_notes (snd (web_clip_webhook w req))) =
        map (\<lambda>r. (col_content r, col_username r)) (user_notes w) @
        (if pg_commits (pg w)
         then [(py ''Web Clip from '' @ url @ py '':'' @ [newline, newline] @ t,
                Some (case get_json req ''username'' of
                        None \<Rightarrow> py ''unknown_web_clipper''
                      | Some name \<Rightarrow> if name = [] then py ''unknown_web_clipper'' else name))]
         else [])"
    using a web_clip_world [where url = url and t = t and w = w and req = req, OF _ _ _ _ _ refl]
    by (simp add: pairs_of_saved u)
next
  assume a: "form req ''body-plain'' = Some b \<and> str_strip b \<noteq> []"
  have "map col_content (user_notes (snd (receive_email w req))) =
        map fst (map (\<lambda>r. (col_content r, col_username r))
                   (user_notes (snd (receive_email w req))))"
    by (simp add: comp_def)
  also have "\<dots> = map col_content (user_notes w) @
        (if pg_commits (pg w)
         then [case form req ''subject'' of
                 None \<Rightarrow> b
               | Some subj \<Rightarrow>
                   if subj = [] then b else py ''Subject: '' @ subj @ [newline, newline] @ b]
         else [])"
    using a receive_email_world [where b = b and w = w and req = req, OF _ _ refl]
          pairs_of_saved [of w _ _ _ _ "form req ''sender''"]
    by (simp add: comp_def)
  finally show "map col_content (user_notes (snd (receive_email w req))) =
        map col_content (user_notes w) @
        (if pg_commits (pg w)
         then [case form req ''subject'' of
                 None \<Rightarrow> b
               | Some subj \<Rightarrow>
                   if subj = [] then b else py ''Subject: '' @ subj @ [newline, newline] @ b]
         else [])" .
qed

theorem persisted_content_and_username_witness:
  "map (\<lambda>r. (col_content r, col_username r))
     (user_notes (snd (web_clip_webhook (fresh_world ai_ok pg_ok)
        (json_request [''url'' \<mapsto> py ''https://example.org/a'', ''text'' \<mapsto> py ''clip'',
                       ''username'' \<mapsto> py ''ann'']))))
     = [(py ''Web Clip from https://example.org/a:'' @ [newline, newline] @ py ''clip'',
         Some (py ''ann''))] \<and>
   map col_content
     (user_notes (snd (receive_email (fresh_world ai_ok pg_ok)
        (form_request [''subject'' \<mapsto> py ''Hi'', ''body-plain'' \<mapsto> py ''hello'']))))
     = [py ''Subject: Hi'' @ [newline, newline] @ py ''hello'']"
proof -
  have h: "str_strip (py ''clip'') \<noteq> []" "str_strip (py ''hello'') \<noteq> []"
    by (simp_all add: py_def str_strip_def isspace_def)
  have pg: "pg_commits pg_ok"
    by (simp add: pg_ok_def pg_commits_def)
  have ne: "py ''https://example.org/a'' \<noteq> []" "py ''ann'' \<noteq> []" "py ''Hi'' \<noteq> []"
    by (simp_all add: py_def)
  have cat: "py ''Web Clip from '' @ py ''https://example.org/a'' @ py '':'' =
             py ''Web Clip from https://example.org/a:''"
    "py ''Subject: '' @ py ''Hi'' = py ''Subject: Hi''"
    by (simp_all add: py_def)
  show ?thesis
    using persisted_content_and_username
      [where req = "json_request [''url'' \<mapsto> py ''https://example.org/a'',
                                  ''text'' \<mapsto> py ''clip'', ''username'' \<mapsto> py ''ann'']"
         and url = "py ''https://example.org/a''" and t = "py ''clip''"
         and w = "fresh_world ai_ok pg_ok" and b = "[]"]
      persisted_content_and_username
      [where req = "form_request [''subject'' \<mapsto> py ''Hi'', ''body-plain'' \<mapsto> py ''hello'']"
         and url = "[]" and t = "[]" and w = "fresh_world ai_ok pg_ok" and b = "py ''hello''"]
    by (simp add: json_request_def form_request_def fresh_world_def h pg ne cat)
qed

section \<open>The email channel has no default username\<close>

text \<open>
  C10, as stated, fails twice. A body of one space is not empty, yet validation rejects
  it with the 400 reply; and a note with a body is not persisted when the store cannot
  be reached.
\<close>

theorem email_blank_body_counterexample:
  "py '' '' \<noteq> [] \<and>
   receive_email (fresh_world ai_ok pg_ok) (form_request [''body-plain'' \<mapsto> py '' ''])
     = (Inr (Text (py ''Missing email body''), 400), fresh_world ai_ok pg_ok) \<and>
   str_strip (py ''hello'') \<noteq> [] \<and>
   user_notes (snd (receive_email (fresh_world ai_ok pg_down)
                      (form_request [''body-plain'' \<mapsto> py ''hello''])))
     = []"
proof -
  have h: "str_strip (py '' '') = []" "str_strip (py ''hello'') \<noteq> []" "py '' '' \<noteq> []"
    by (simp_all add: py_def str_strip_def isspace_def)
  have blank: "receive_email (fresh_world ai_ok pg_ok) (form_request [''body-plain'' \<mapsto> py '' ''])
     = (Inr (Text (py ''Missing email body''), 400), fresh_world ai_ok pg_ok)"
    by (rule receive_email_blank_body [where b = "py '' ''"]) (simp_all add: form_request_def h)
  have down: "user_notes (snd (receive_email (fresh_world ai_ok pg_down)
                      (form_request [''body-plain'' \<mapsto> py ''hello'']))) = []"
    by (subst receive_email_world [where b = "py ''hello''" and c = "py ''hello''"])
       (simp_all add: form_request_def h save_user_notes enriched_fields fresh_world_def
                      pg_down_def pg_ok_def pg_commits_def)
  show ?thesis
    using h blank down by simp
qed

text \<open>
  C10, amended. For an email whose \<^verbatim>\<open>body-plain\<close> is not empty after trimming and that has
  no \<^verbatim>\<open>sender\<close> field, validation passes: the three analysis calls are made and the store
  is contacted. The row written when the store commits has no username (SQL NULL), and
  no other row is written; the reply is the success reply exactly when the store accepts
  the insert. The email channel puts no default in place of the missing sender.
\<close>

theorem email_no_default_username:
  "form req ''body-plain'' = Some b \<and> str_strip b \<noteq> [] \<and> form req ''sender'' = None \<longrightarrow>
     length (openai_calls (snd (receive_email w req))) = length (openai_calls w) + 3 \<and>
     (\<exists>rest. pg_log (snd (receive_email w req)) = pg_log w @ PgConnect # rest) \<and>
     map col_username (user_notes (snd (receive_email w req))) =
       map col_username (user_notes w) @ (if pg_commits (pg w) then [None] else []) \<and>
     (fst (receive_email w req) = Inr (Text (py ''Email received and saved!''), 200) \<longleftrightarrow>
        pg_accepts (pg w))"
proof (intro impI)
  assume a: "form req ''body-plain'' = Some b \<and> str_strip b \<noteq> [] \<and> form req ''sender'' = None"
  define c where "c = (case form req ''subject'' of
                None \<Rightarrow> b
              | Some subj \<Rightarrow>
                  if subj = [] then b else py ''Subject: '' @ subj @ [newline, newline] @ b)"
  let ?save = "save_note_to_database (enriched w c) c
            (ai_value w 0 c (py ''summary'')) (ai_value w 1 c (py ''sentiment''))
            (parse_keywords_response (ai_value w 2 c (py ''keywords'')))
            (form req ''sender'')"
  have world: "snd (receive_email w req) = snd ?save"
    using a receive_email_world [where b = b and w = w and req = req and c = c] c_def by simp
  have reply: "fst (receive_email w req) =
      (case fst ?save of
         Inl e \<Rightarrow> Inl e
       | Inr True \<Rightarrow> Inr (Text (py ''Email received and saved!''), 200)
       | Inr False \<Rightarrow> Inr (Text (py ''Error saving email''), 500))"
    using a by (simp add: receive_email_valid [where b = b] Let_def c_def)
  have calls: "length (openai_calls (snd (receive_email w req))) = length (openai_calls w) + 3"
    unfolding world by (simp add: save_keeps_openai enriched_fields)
  have contact: "\<exists>rest. pg_log (snd (receive_email w req)) = pg_log w @ PgConnect # rest"
    unfolding world using save_contacts_store [of "enriched w c"] by (simp add: enriched_fields)
  have rows: "map col_username (user_notes (snd (receive_email w req))) =
       map col_username (user_notes w) @ (if pg_commits (pg w) then [None] else [])"
    unfolding world using a by (simp add: save_user_notes enriched_fields)
  have "fst (receive_email w req) = Inr (Text (py ''Email received and saved!''), 200) \<longleftrightarrow>
        fst ?save = Inr True"
    unfolding reply by (auto split: sum.splits bool.splits)
  then have ok: "fst (receive_email w req) = Inr (Text (py ''Email received and saved!''), 200) \<longleftrightarrow>
        pg_accepts (pg w)"
    by (simp add: save_true_iff enriched_fields)
  show "length (openai_calls (snd (receive_email w req))) = length (openai_calls w) + 3 \<and>
     (\<exists>rest. pg_log (snd (receive_email w req)) = pg_log w @ PgConnect # rest) \<and>
     map col_username (user_notes (snd (receive_email w req))) =
       map col_username (user_notes w) @ (if pg_commits (pg w) then [None] else []) \<and>
     (fst (receive_email w req) = Inr (Text (py ''Email received and saved!''), 200) \<longleftrightarrow>
        pg_accepts (pg w))"
    using calls contact rows ok by blast
qed

theorem email_no_default_username_witness:
  "map col_username
     (user_notes (snd (receive_email (fresh_world ai_ok pg_ok)
        (form_request [''subject'' \<mapsto> py ''Hi'', ''body-plain'' \<mapsto> py ''hello'']))))
     = [None] \<and>
   fst (receive_email (fresh_world ai_ok pg_ok)
        (form_request [''subject'' \<mapsto> py ''Hi'', ''body-plain'' \<mapsto> py ''hello'']))
     = Inr (Text (py ''Email received and saved!''), 200) \<and>
   length (openai_calls (snd (receive_email (fresh_world ai_ok pg_ok)
        (form_request [''subject'' \<mapsto> py ''Hi'', ''body-plain'' \<mapsto> py ''hello'']))))
     = 3"
proof -
  have h: "str_strip (py ''hello'') \<noteq> []"
    by (simp add: py_def str_strip_def isspace_def)
  have pg: "pg_commits pg_ok" "pg_accepts pg_ok"
    by (simp_all add: pg_ok_def pg_commits_def pg_accepts_def)
  show ?thesis
    using email_no_default_username
      [where req = "form_request [''subject'' \<mapsto> py ''Hi'', ''body-plain'' \<mapsto> py ''hello'']"
         and b = "py ''hello''" and w = "fresh_world ai_ok pg_ok"]
    by (simp add: form_request_def fresh_world_def h pg)
qed

section \<open>The three analysis calls\<close>

text \<open>
  C9, as stated, fails: the system role and the instruction are not the strings the
  specification writes. The system message ends in a full stop, and the instruction is
  followed by two newlines, not by a space, before the content; the model is the literal
  \<^verbatim>\<open>gpt-3.5-turbo\<close> of the source.
\<close>

theorem prompt_template_counterexample:
  "openai_request (py ''x'') (py ''summary'') =
     \<lparr>model = py ''gpt-3.5-turbo'',
      messages = [(py ''system'', py ''You are a helpful AI assistant.''),
                  (py ''user'',
                   py ''Summarize the following text concisely:'' @ [newline, newline] @ py ''x'')],
      temperature = 7 / 10, max_tokens = 500\<rparr> \<and>
   system_message \<noteq> py ''You are a helpful AI assistant'' \<and>
   user_prompt (py ''x'') (py ''summary'') \<noteq> py ''Summarize the following text concisely: x''"
  by (simp add: openai_request_def user_prompt_def system_message_def py_def newline_def)

lemma openai_request_fields:
  "openai_request c (py ''summary'') =
     \<lparr>model = py ''gpt-3.5-turbo'',
      messages = [(py ''system'', py ''You are a helpful AI assistant.''),
                  (py ''user'', py ''Summarize the following text concisely:'' @
                                [newline, newline] @ c)],
      temperature = 7 / 10, max_tokens = 500\<rparr>"
  "openai_request c (py ''sentiment'') =
     \<lparr>model = py ''gpt-3.5-turbo'',
      messages = [(py ''system'', py ''You are a helpful AI assistant.''),
                  (py ''user'',
                   py ''What is the sentiment of the following text (positive, negative, neutral)? '' @
                   py ''Just provide the sentiment word.'' @ [newline, newline] @ c)],
      temperature = 7 / 10, max_tokens = 500\<rparr>"
  "openai_request c (py ''keywords'') =
     \<lparr>model = py ''gpt-3.5-turbo'',
      messages = [(py ''system'', py ''You are a helpful AI assistant.''),
                  (py ''user'',
                   py ''Extract 5-10 key keywords from the following text, separated by commas. '' @
                   py ''Only provide the keywords.'' @ [newline, newline] @ c)],
      temperature = 7 / 10, max_tokens = 500\<rparr>"
  by (simp_all add: openai_request_def user_prompt_def system_message_def py_def)

text \<open>
  C9, amended. A request that passes validation makes exactly three calls, in the order
  summary, sentiment, keywords, each with two messages only: the system message
  \<^verbatim>\<open>You are a helpful AI assistant.\<close> and a user message made of the instruction of
  its kind, two newlines and the content. The instructions are
  \<^verbatim>\<open>Summarize the following text concisely:\<close>,
  \<^verbatim>\<open>What is the sentiment of the following text (positive, negative, neutral)? Just provide the sentiment word.\<close>
  and
  \<^verbatim>\<open>Extract 5-10 key keywords from the following text, separated by commas. Only provide the keywords.\<close>
  Every call has temperature 0.7, at most 500 tokens and the model \<^verbatim>\<open>gpt-3.5-turbo\<close>,
  which the source fixes. This holds for the three webhooks, whatever the calls return
  and whatever the store does.
\<close>

theorem enrichment_calls:
  "let call = (\<lambda>instruction content.
        \<lparr>model = py ''gpt-3.5-turbo'',
         messages = [(py ''system'', py ''You are a helpful AI assistant.''),
                     (py ''user'', instruction @ [newline, newline] @ content)],
         temperature = 7 / 10, max_tokens = 500\<rparr>);
       calls = (\<lambda>content.
        [call (py ''Summarize the following text concisely:'') content,
         call (py ''What is the sentiment of the following text (positive, negative, neutral)? '' @
               py ''Just provide the sentiment word.'') content,
         call (py ''Extract 5-10 key keywords from the following text, separated by commas. '' @
               py ''Only provide the keywords.'') content])
   in
     (form req ''Body'' = Some b \<and> str_strip b \<noteq> [] \<longrightarrow>
        openai_calls (snd (sms_webhook w req)) = openai_calls w @ calls b) \<and>
     (is_json req \<and> get_json req ''url'' = Some url \<and> url \<noteq> [] \<and>
      get_json req ''text'' = Some t \<and> str_strip t \<noteq> [] \<longrightarrow>
        openai_calls (snd (web_clip_webhook w req)) =
          openai_calls w @ calls (py ''Web Clip from '' @ url @ py '':'' @ [newline, newline] @ t)) \<and>
     (form req ''body-plain'' = Some b \<and> str_strip b \<noteq> [] \<longrightarrow>
        openai_calls (snd (receive_email w req)) =
          openai_calls w @
          calls (case form req ''subject'' of
                   None \<Rightarrow> b
                 | Some subj \<Rightarrow>
                     if subj = [] then b
                     else py ''Subject: '' @ subj @ [newline, newline] @ b))"
proof -
  have calls: "openai_calls (snd (save_note_to_database (enriched w' c) c' s se k u)) =
      openai_calls w' @
      [openai_request c (py ''summary''), openai_request c (py ''sentiment''),
       openai_request c (py ''keywords'')]" for w' c c' s se k u
    by (simp add: save_keeps_openai enriched_fields)
  have sms: "openai_calls (snd (sms_webhook w req)) =
      openai_calls w @
      [openai_request b (py ''summary''), openai_request b (py ''sentiment''),
       openai_request b (py ''keywords'')]"
    if "form req ''Body'' = Some b \<and> str_strip b \<noteq> []"
  proof -
    from that have eq: "b = (case form req ''Body'' of None \<Rightarrow> [] | Some v \<Rightarrow> v)"
      and st: "str_strip b \<noteq> []"
      by simp_all
    show ?thesis
      unfolding sms_world [OF st eq] by (rule calls)
  qed
  have web: "openai_calls (snd (web_clip_webhook w req)) =
      openai_calls w @
      [openai_request (py ''Web Clip from '' @ url @ py '':'' @ [newline, newline] @ t)
         (py ''summary''),
       openai_request (py ''Web Clip from '' @ url @ py '':'' @ [newline, newline] @ t)
         (py ''sentiment''),
       openai_request (py ''Web Clip from '' @ url @ py '':'' @ [newline, newline] @ t)
         (py ''keywords'')]"
    if "is_json req \<and> get_json req ''url'' = Some url \<and> url \<noteq> [] \<and>
        get_json req ''text'' = Some t \<and> str_strip t \<noteq> []"
  proof -
    from that have j: "is_json req" and u: "get_json req ''url'' = Some url" and ne: "url \<noteq> []"
      and tx: "get_json req ''text'' = Some t" and st: "str_strip t \<noteq> []"
      by simp_all
    show ?thesis
      unfolding web_clip_world [OF j u ne tx st refl] by (rule calls)
  qed
  have mail: "openai_calls (snd (receive_email w req)) =
      openai_calls w @
      [openai_request c (py ''summary''), openai_request c (py ''sentiment''),
       openai_request c (py ''keywords'')]"
    if "form req ''body-plain'' = Some b \<and> str_strip b \<noteq> []"
      and "c = (case form req ''subject'' of
                  None \<Rightarrow> b
                | Some subj \<Rightarrow>
                    if subj = [] then b else py ''Subject: '' @ subj @ [newline, newline] @ b)"
    for c
  proof -
    from that have bp: "form req ''body-plain'' = Some b" and st: "str_strip b \<noteq> []"
      by simp_all
    show ?thesis
      unfolding receive_email_world [OF bp st that(2)] by (rule calls)
  qed
  show ?thesis
    unfolding Let_def
    using sms web mail [OF _ refl]
    by (simp add: openai_request_fields)
qed

theorem enrichment_calls_witness:
  "openai_calls (snd (sms_webhook (fresh_world ai_ok pg_down)
                        (form_request [''Body'' \<mapsto> py ''hi''])))
     = [\<lparr>model = py ''gpt-3.5-turbo'',
         messages = [(py ''system'', py ''You are a helpful AI assistant.''),
                     (py ''user'', py ''Summarize the following text concisely:'' @
                                   [newline, newline] @ py ''hi'')],
         temperature = 7 / 10, max_tokens = 500\<rparr>,
        \<lparr>model = py ''gpt-3.5-turbo'',
         messages = [(py ''system'', py ''You are a helpful AI assistant.''),
                     (py ''user'',
                      py ''What is the sentiment of the following text (positive, negative, neutral)? '' @
                      py ''Just provide the sentiment word.'' @ [newline, newline] @ py ''hi'')],
         temperature = 7 / 10, max_tokens = 500\<rparr>,
        \<lparr>model = py ''gpt-3.5-turbo'',
         messages = [(py ''system'', py ''You are a helpful AI assistant.''),
                     (py ''user'',
                      py ''Extract 5-10 key keywords from the following text, separated by commas. '' @
                      py ''Only provide the keywords.'' @ [newline, newline] @ py ''hi'')],
         temperature = 7 / 10, max_tokens = 500\<rparr>] \<and>
   length (openai_calls (snd (web_clip_webhook (fresh_world ai_ok pg_ok)
        (json_request [''url'' \<mapsto> py ''https://example.org/a'', ''text'' \<mapsto> py ''clip'']))))
     = 3 \<and>
   length (openai_calls (snd (receive_email (fresh_world ai_ok pg_ok)
        (form_request [''body-plain'' \<mapsto> py ''hello'']))))
     = 3"
proof -
  have h: "str_strip (py ''hi'') \<noteq> []" "str_strip (py ''clip'') \<noteq> []"
    "str_strip (py ''hello'') \<noteq> []" "py ''https://example.org/a'' \<noteq> []"
    by (simp_all add: py_def str_strip_def isspace_def)
  show ?thesis
    using enrichment_calls
      [where req = "form_request [''Body'' \<mapsto> py ''hi'']" and b = "py ''hi''"
         and w = "fresh_world ai_ok pg_down" and url = "[]" and t = "[]"]
      enrichment_calls
      [where req = "json_request [''url'' \<mapsto> py ''https://example.org/a'',
                                  ''text'' \<mapsto> py ''clip'']"
         and b = "[]" and w = "fresh_world ai_ok pg_ok"
         and url = "py ''https://example.org/a''" and t = "py ''clip''"]
      enrichment_calls
      [where req = "form_request [''body-plain'' \<mapsto> py ''hello'']" and b = "py ''hello''"
         and w = "fresh_world ai_ok pg_ok" and url = "[]" and t = "[]"]
    by (simp add: Let_def form_request_def json_request_def fresh_world_def h)
qed

section \<open>The keyword array literal\<close>

text \<open>
  C8. The literal is an opening brace, the elements joined by commas, a closing brace;
  an element is written between double quotes with every double quote in it replaced by
  a backslash and a double quote. The list of \<^verbatim>\<open>a"b\<close> and \<^verbatim>\<open>c\<close> gives the literal
  \<^verbatim>\<open>{"a\"b","c"}\<close>, and the reader of array literals gets the two elements back from it.
\<close>

theorem keywords_pg_array_example:
  "keywords_pg_array ks =
     [lbrace] @
     str_join [comma]
       (map (\<lambda>k. [dquote] @ concat (map (\<lambda>c. if c = dquote then [backslash, dquote] else [c]) k) @
                  [dquote]) ks) @
     [rbrace] \<and>
   keywords_pg_array [py ''a'' @ [dquote] @ py ''b'', py ''c''] =
     [lbrace, dquote] @ py ''a'' @ [backslash, dquote] @ py ''b'' @ [dquote, comma, dquote] @
     py ''c'' @ [dquote, rbrace] \<and>
   pg_array_parse
     ([lbrace, dquote] @ py ''a'' @ [backslash, dquote] @ py ''b'' @ [dquote, comma, dquote] @
      py ''c'' @ [dquote, rbrace]) =
     Some [py ''a'' @ [dquote] @ py ''b'', py ''c'']"
proof -
  have form: "keywords_pg_array ks =
     [lbrace] @
     str_join [comma]
       (map (\<lambda>k. [dquote] @ concat (map (\<lambda>c. if c = dquote then [backslash, dquote] else [c]) k) @
                  [dquote]) ks) @
     [rbrace]"
    by (simp add: keywords_pg_array_def str_replace_def)
  have writes: "keywords_pg_array [py ''a'' @ [dquote] @ py ''b'', py ''c''] =
     [lbrace, dquote] @ py ''a'' @ [backslash, dquote] @ py ''b'' @ [dquote, comma, dquote] @
     py ''c'' @ [dquote, rbrace]"
    by (simp add: keywords_pg_array_def str_replace_def py_def char_defs)
  have reads: "pg_array_parse
     ([lbrace, dquote] @ py ''a'' @ [backslash, dquote] @ py ''b'' @ [dquote, comma, dquote] @
      py ''c'' @ [dquote, rbrace]) =
     Some [py ''a'' @ [dquote] @ py ''b'', py ''c'']"
    by (simp add: pg_array_parse_def py_def char_defs)
  show ?thesis
    using form writes reads by (intro conjI)
qed

section \<open>Reading the array literal back\<close>

lemma pg_scan_element:
  "backslash \<notin> set k \<Longrightarrow>
   pg_scan (InElem e) acc (str_replace dquote [backslash, dquote] k @ dquote # rest) =
   pg_scan AfterElem ((rev e @ k) # acc) rest"
proof (induction k arbitrary: e)
  case Nil
  show ?case by (simp add: str_replace_def)
next
  case (Cons c k)
  then have "pg_scan (InElem (c # e)) acc
               (str_replace dquote [backslash, dquote] k @ dquote # rest) =
             pg_scan AfterElem ((rev (c # e) @ k) # acc) rest"
    by simp
  with Cons.prems show ?case
    by (auto simp add: str_replace_def char_defs)
qed

lemma pg_scan_elements:
  assumes "\<forall>k \<in> set (k0 # ks). backslash \<notin> set k"
  shows "pg_scan ExpectElem acc
           (str_join [comma]
              (map (\<lambda>k. [dquote] @ str_replace dquote [backslash, dquote] k @ [dquote])
                 (k0 # ks)) @
            [rbrace]) =
         Some (rev acc @ k0 # ks)"
  using assms
proof (induction ks arbitrary: k0 acc)
  case Nil
  then show ?case
    using pg_scan_element [of k0 "[]" acc "[rbrace]"] by (simp add: char_defs)
next
  case (Cons k1 ks)
  let ?q = "\<lambda>k. [dquote] @ str_replace dquote [backslash, dquote] k @ [dquote]"
  have "pg_scan ExpectElem acc (str_join [comma] (map ?q (k0 # k1 # ks)) @ [rbrace]) =
        pg_scan ExpectElem (k0 # acc) (str_join [comma] (map ?q (k1 # ks)) @ [rbrace])"
    using Cons.prems
      pg_scan_element [of k0 "[]" acc "comma # str_join [comma] (map ?q (k1 # ks)) @ [rbrace]"]
    by (simp add: char_defs)
  also have "\<dots> = Some (rev (k0 # acc) @ k1 # ks)"
    using Cons.prems by (intro Cons.IH) simp
  finally show ?case by simp
qed

text \<open>
  The reader gets every keyword list back whose keywords hold no backslash. A backslash
  is written as it is, so a keyword that ends in one swallows the closing quote.
\<close>

lemma pg_array_roundtrip:
  assumes "\<forall>k \<in> set ks. backslash \<notin> set k"
  shows "pg_array_parse (keywords_pg_array ks) = Some ks"
proof (cases ks)
  case Nil
  then show ?thesis
    by (simp add: pg_array_parse_def keywords_pg_array_def)
next
  case (Cons k ks')
  have start: "str_join [comma]
          (map (\<lambda>k. [dquote] @ str_replace dquote [backslash, dquote] k @ [dquote]) ks) @
        [rbrace] \<noteq> [rbrace]"
    using Cons by (cases ks') (simp_all add: char_defs)
  show ?thesis
    using pg_scan_elements [of k ks' "[]"] assms start Cons
    by (simp add: pg_array_parse_def keywords_pg_array_def)
qed

lemma pg_array_backslash_lost:
  "pg_array_parse (keywords_pg_array [py ''a'' @ [backslash]]) = None"
  by (simp add: pg_array_parse_def keywords_pg_array_def str_replace_def py_def char_defs)

end
